theory Spec2Isabelle
  imports Complex_Main "HOL-Library.Sublist"
begin

section \<open>Python values, exceptions and string helpers\<close>

text \<open>
  Strings are lists of characters with code points below 256. A Decimal is modelled by
  the rational it stands for. A float is a finite value, modelled by the rational it
  stands for, or one of the special values; arithmetic on finite values is exact (the
  rounding of the last bit is not modelled), and a result whose magnitude reaches
  \<open>dbl_limit\<close> (the least magnitude that rounds beyond the largest double) overflows
  to an infinity.
\<close>

datatype pyfloat = Fl rat | PosInf | NegInf | NaN

definition dbl_limit :: rat where
  "dbl_limit = 2 ^ 1024 - 2 ^ 970"

definition round_fl :: "rat \<Rightarrow> pyfloat" where
  "round_fl x =
     (if dbl_limit \<le> x then PosInf
      else if x \<le> - dbl_limit then NegInf
      else Fl x)"

text \<open>Float addition.\<close>

fun fadd :: "pyfloat \<Rightarrow> pyfloat \<Rightarrow> pyfloat" where
  "fadd (Fl a) (Fl b) = round_fl (a + b)"
| "fadd NaN y = NaN"
| "fadd x NaN = NaN"
| "fadd PosInf NegInf = NaN"
| "fadd NegInf PosInf = NaN"
| "fadd PosInf y = PosInf"
| "fadd x PosInf = PosInf"
| "fadd NegInf y = NegInf"
| "fadd x NegInf = NegInf"

text \<open>Division of a float by a positive length.\<close>

fun fdiv_len :: "pyfloat \<Rightarrow> nat \<Rightarrow> pyfloat" where
  "fdiv_len (Fl a) n = Fl (a / of_nat n)"
| "fdiv_len PosInf n = PosInf"
| "fdiv_len NegInf n = NegInf"
| "fdiv_len NaN n = NaN"

text \<open>\<open>sum(xs)\<close> on floats: from 0, left to right.\<close>

definition fsum :: "pyfloat list \<Rightarrow> pyfloat" where
  "fsum xs = foldl fadd (Fl 0) xs"

datatype pyval =
    PNone
  | PBool bool
  | PInt int
  | PFloat pyfloat
  | PStr string
  | PList "pyval list"
  | PDict "(string \<times> pyval) list"

text \<open>
  The exceptions of the program. \<open>ValueError\<close> stands for the class and its subclasses.
  The last three are the \<open>CommandError\<close>s raised by the command, kept structured
  instead of as message strings; \<open>OtherError\<close> is any exception class that no handler
  of the program names (a database error, a validation error, an XML parse error, ...).
\<close>

datatype exn =
    KeyError
  | ValueError
  | InvalidOperation
  | TypeError
  | AttributeError
  | OverflowError
  | OtherError string
  | FileNotFound string
  | UnsupportedFormat string
  | FileProcessingError string exn

text \<open>Sequencing: an exception of the first step is the exception of the whole.\<close>

definition and_then :: "exn + 'a \<Rightarrow> ('a \<Rightarrow> exn + 'b) \<Rightarrow> exn + 'b" where
  "and_then m f = (case m of Inl x \<Rightarrow> Inl x | Inr v \<Rightarrow> f v)"

text \<open>\<open>str.strip()\<close>: the white space characters of Python below code point 256.\<close>

definition is_space :: "char \<Rightarrow> bool" where
  "is_space c = (let n = (of_char c :: nat) in
     (9 \<le> n \<and> n \<le> 13) \<or> (28 \<le> n \<and> n \<le> 32) \<or> n = 133 \<or> n = 160)"

text \<open>\<open>s.strip(chars)\<close> removes every leading and trailing character that satisfies \<open>P\<close>.\<close>

definition strip_by :: "(char \<Rightarrow> bool) \<Rightarrow> string \<Rightarrow> string" where
  "strip_by P s = rev (dropWhile P (rev (dropWhile P s)))"

definition strip_ws :: "string \<Rightarrow> string" where
  "strip_ws = strip_by is_space"

definition bracket_chars :: "char set" where
  "bracket_chars = set ''[](){}''"

text \<open>\<open>s.split(',')\<close>: always at least one piece.\<close>

fun split_on :: "char \<Rightarrow> string \<Rightarrow> string list" where
  "split_on c [] = [[]]"
| "split_on c (x # xs) =
     (if x = c then [] # split_on c xs
      else (case split_on c xs of
              [] \<Rightarrow> [[x]]
            | t # ts \<Rightarrow> (x # t) # ts))"

section \<open>The ratings parser (\<open>parse_ratings\<close>)\<close>

text \<open>
  \<open>float(s)\<close> on a string is a parameter \<open>fl\<close> that gives the number or the exception
  raised (the parser does nothing with the numbers but collect them, so their type is
  left open). The loop over the pieces appends a value for every non-empty stripped piece
  that \<open>float\<close> accepts; its handler catches \<open>ValueError\<close> and goes on with the next
  piece, any other exception leaves the function.
\<close>

fun ratings_loop :: "(string \<Rightarrow> exn + 'a) \<Rightarrow> string list \<Rightarrow> 'a list \<Rightarrow> exn + 'a list" where
  "ratings_loop fl [] ratings = Inr ratings"
| "ratings_loop fl (t # ts) ratings =
     (let rating = strip_ws t in
      if rating \<noteq> [] then
        (case fl rating of
           Inr x \<Rightarrow> ratings_loop fl ts (ratings @ [x])
         | Inl ex \<Rightarrow> (if ex = ValueError then ratings_loop fl ts ratings else Inl ex))
      else ratings_loop fl ts ratings)"

definition parse_ratings :: "(string \<Rightarrow> exn + 'a) \<Rightarrow> string \<Rightarrow> exn + 'a list" where
  "parse_ratings fl ratings_str =
     (if ratings_str = [] then Inr []
      else let s = strip_by (\<lambda>c. c \<in> bracket_chars) ratings_str in
        if s = [] then Inr []
        else ratings_loop fl (split_on (CHR '','') s) [])"

section \<open>The model (\<open>models.py\<close>)\<close>

text \<open>
  A record of the table \<open>PointOfInterest\<close>. Python is dynamically typed, so the fields
  taken from the input hold any value. The primary key and the two time stamps are
  assigned by the database and are not modelled. The table is the list of its records
  in insertion order.
\<close>

record poi =
  external_id :: pyval
  name :: pyval
  latitude :: rat
  longitude :: rat
  category :: pyval
  ratings_data :: pyval
  avg_rating :: "pyfloat option"
  description :: pyval

type_synonym db = "poi list"

text \<open>
  What the program takes from the language and the framework:
  \<^item> \<open>float_of\<close>: \<open>float(s)\<close> on a string, the number or the exception raised;
  \<^item> \<open>decimal_of\<close>: \<open>Decimal(s)\<close> on a string, the number or the exception raised;
  \<^item> \<open>str_of\<close>: \<open>str(v)\<close>;
  \<^item> \<open>db_reject\<close>: the exception, if any, with which \<open>Model.save()\<close> of the
    framework refuses to write a record.
\<close>

record env =
  float_of :: "string \<Rightarrow> exn + pyfloat"
  decimal_of :: "string \<Rightarrow> exn + rat"
  str_of :: "pyval \<Rightarrow> string"
  db_reject :: "poi \<Rightarrow> exn option"

text \<open>Truth value of a Python value (\<open>if v:\<close>).\<close>

fun truthy :: "pyval \<Rightarrow> bool" where
  "truthy PNone = False"
| "truthy (PBool b) = b"
| "truthy (PInt i) = (i \<noteq> 0)"
| "truthy (PFloat x) = (x \<noteq> Fl 0)"
| "truthy (PStr s) = (s \<noteq> [])"
| "truthy (PList xs) = (xs \<noteq> [])"
| "truthy (PDict kvs) = (kvs \<noteq> [])"

text \<open>\<open>for r in v\<close>: the items of an iteration, or \<open>TypeError\<close>.\<close>

fun iter_of :: "pyval \<Rightarrow> exn + pyval list" where
  "iter_of (PList xs) = Inr xs"
| "iter_of (PStr s) = Inr (map (\<lambda>c. PStr [c]) s)"
| "iter_of (PDict kvs) = Inr (map (\<lambda>kv. PStr (fst kv)) kvs)"
| "iter_of PNone = Inl TypeError"
| "iter_of (PBool b) = Inl TypeError"
| "iter_of (PInt i) = Inl TypeError"
| "iter_of (PFloat x) = Inl TypeError"

text \<open>
  \<open>float(r)\<close> on any value. An integer too large for a double raises \<open>OverflowError\<close>.
\<close>

fun to_float :: "env \<Rightarrow> pyval \<Rightarrow> exn + pyfloat" where
  "to_float e (PInt i) =
     (if dbl_limit \<le> \<bar>of_int i\<bar> then Inl OverflowError else Inr (Fl (of_int i)))"
| "to_float e (PFloat x) = Inr x"
| "to_float e (PBool b) = Inr (Fl (if b then 1 else 0))"
| "to_float e (PStr s) = float_of e s"
| "to_float e PNone = Inl TypeError"
| "to_float e (PList xs) = Inl TypeError"
| "to_float e (PDict kvs) = Inl TypeError"

text \<open>\<open>[float(r) for r in items if r is not None]\<close>: stops at the first exception.\<close>

fun floats_of :: "env \<Rightarrow> pyval list \<Rightarrow> exn + pyfloat list" where
  "floats_of e [] = Inr []"
| "floats_of e (r # rs) =
     (if r = PNone then floats_of e rs
      else (case to_float e r of
              Inl x \<Rightarrow> Inl x
            | Inr v \<Rightarrow> (case floats_of e rs of
                          Inl x \<Rightarrow> Inl x
                        | Inr vs \<Rightarrow> Inr (v # vs))))"

text \<open>
  The computation of \<open>avg_rating\<close> in \<open>PointOfInterest.save\<close>: the handler of the
  \<open>try\<close> block catches \<open>ValueError\<close> and \<open>TypeError\<close>, anything else propagates.
\<close>

definition calc_avg :: "env \<Rightarrow> pyval \<Rightarrow> exn + pyfloat option" where
  "calc_avg e rd =
     (if truthy rd then
        (case (case iter_of rd of Inl x \<Rightarrow> Inl x | Inr items \<Rightarrow> floats_of e items) of
           Inr ratings \<Rightarrow>
             (if ratings \<noteq> [] then Inr (Some (fdiv_len (fsum ratings) (length ratings)))
              else Inr None)
         | Inl x \<Rightarrow> (if x = ValueError \<or> x = TypeError then Inr None else Inl x))
      else Inr None)"

text \<open>
  \<open>PointOfInterest.save\<close>: sets \<open>avg_rating\<close>, then \<open>super().save()\<close> writes the
  record at the end of the table unless the framework raises.
\<close>

definition save :: "env \<Rightarrow> poi \<Rightarrow> db \<Rightarrow> exn + db" where
  "save e p d =
     (case calc_avg e (ratings_data p) of
        Inl x \<Rightarrow> Inl x
      | Inr a \<Rightarrow>
          (let p' = p\<lparr>avg_rating := a\<rparr> in
           case db_reject e p' of
             Some x \<Rightarrow> Inl x
           | None \<Rightarrow> Inr (d @ [p'])))"


section \<open>The import command (\<open>import_poi.py\<close>)\<close>

subsection \<open>Adapter selection\<close>

text \<open>\<open>str.lower()\<close> on code points below 256.\<close>

definition lower_char :: "char \<Rightarrow> char" where
  "lower_char c = (let n = (of_char c :: nat) in
     if 65 \<le> n \<and> n \<le> 90 then char_of (n + 32)
     else if 192 \<le> n \<and> n \<le> 222 \<and> n \<noteq> 215 then char_of (n + 32)
     else c)"

definition lower :: "string \<Rightarrow> string" where
  "lower = map lower_char"

text \<open>\<open>s.rfind(c)\<close>: the index of the last occurrence, or \<open>-1\<close>.\<close>

definition rfind :: "char \<Rightarrow> string \<Rightarrow> int" where
  "rfind c s =
     (if c \<in> set s
      then int (length s) - 1 - int (length (takeWhile (\<lambda>x. x \<noteq> c) (rev s)))
      else - 1)"

text \<open>
  \<open>os.path.splitext\<close> (POSIX): the extension starts at the last dot of the last path
  component, unless only dots precede it there.
\<close>

definition splitext :: "string \<Rightarrow> string \<times> string" where
  "splitext p =
     (let sepIndex = rfind (CHR ''/'') p;
          dotIndex = rfind (CHR ''.'') p
      in if dotIndex > sepIndex
            \<and> dropWhile (\<lambda>c. c = CHR ''.'') (drop (nat (sepIndex + 1)) (take (nat dotIndex) p)) \<noteq> []
         then (take (nat dotIndex) p, drop (nat dotIndex) p)
         else (p, []))"

datatype adapter = Csv | Json | Xml

text \<open>The branch that \<open>import_file\<close> takes for a path, or its \<open>CommandError\<close>.\<close>

definition select_adapter :: "string \<Rightarrow> exn + adapter" where
  "select_adapter file_path =
     (let ext = snd (splitext (lower file_path)) in
      if ext = ''.csv'' then Inr Csv
      else if ext = ''.json'' then Inr Json
      else if ext = ''.xml'' then Inr Xml
      else Inl (UnsupportedFormat ext))"

subsection \<open>Transactions\<close>

text \<open>
  The decorator \<open>transaction.atomic\<close>: when the decorated function leaves with an
  exception, the table is as it was at the call.
\<close>

definition atomic :: "(db \<Rightarrow> (exn + 'a) \<times> db) \<Rightarrow> db \<Rightarrow> (exn + 'a) \<times> db" where
  "atomic body d =
     (case body d of
        (Inl x, d') \<Rightarrow> (Inl x, d)
      | (Inr v, d') \<Rightarrow> (Inr v, d'))"

subsection \<open>CSV\<close>

text \<open>
  A row of \<open>csv.DictReader\<close> maps every column of the header to a cell; the cell of a
  column that a short row does not reach is \<open>None\<close>.
\<close>

type_synonym csv_row = "string \<rightharpoonup> string option"

definition cell_val :: "string option \<Rightarrow> pyval" where
  "cell_val c = (case c of None \<Rightarrow> PNone | Some s \<Rightarrow> PStr s)"

text \<open>\<open>Decimal(cell)\<close>: \<open>TypeError\<close> on the cell \<open>None\<close>.\<close>

definition decimal_cell :: "env \<Rightarrow> string option \<Rightarrow> exn + rat" where
  "decimal_cell e c =
     (case c of
        None \<Rightarrow> Inl TypeError
      | Some s \<Rightarrow> decimal_of e s)"

text \<open>\<open>row[key]\<close>: \<open>KeyError\<close> when the header has no such column.\<close>

definition getitem :: "csv_row \<Rightarrow> string \<Rightarrow> exn + string option" where
  "getitem row k = (case row k of None \<Rightarrow> Inl KeyError | Some c \<Rightarrow> Inr c)"

text \<open>\<open>row.get('poi_ratings', '').strip()\<close>: \<open>AttributeError\<close> on the cell \<open>None\<close>.\<close>

definition ratings_cell :: "csv_row \<Rightarrow> exn + string" where
  "ratings_cell row =
     (case (case row ''poi_ratings'' of None \<Rightarrow> Some [] | Some c \<Rightarrow> c) of
        None \<Rightarrow> Inl AttributeError
      | Some s \<Rightarrow> Inr (strip_ws s))"

text \<open>The body of the \<open>try\<close> block of \<open>import_csv\<close>, in evaluation order.\<close>

definition csv_body :: "env \<Rightarrow> csv_row \<Rightarrow> db \<Rightarrow> exn + db" where
  "csv_body e row d =
     and_then (ratings_cell row) (\<lambda>ratings_str.
     and_then (parse_ratings (float_of e) ratings_str) (\<lambda>ratings.
     and_then (getitem row ''poi_id'') (\<lambda>pid.
     and_then (getitem row ''poi_name'') (\<lambda>pname.
     and_then (and_then (getitem row ''poi_latitude'') (decimal_cell e)) (\<lambda>lat.
     and_then (and_then (getitem row ''poi_longitude'') (decimal_cell e)) (\<lambda>lon.
     and_then (getitem row ''poi_category'') (\<lambda>cat.
     save e \<lparr>external_id = cell_val pid, name = cell_val pname,
             latitude = lat, longitude = lon, category = cell_val cat,
             ratings_data = PList (map PFloat ratings),
             avg_rating = None, description = PNone\<rparr> d)))))))"

text \<open>The handler of \<open>import_csv\<close> and \<open>import_json\<close>.\<close>

definition skips_kv :: "exn \<Rightarrow> bool" where
  "skips_kv x = (x = KeyError \<or> x = ValueError \<or> x = InvalidOperation)"

fun csv_loop :: "env \<Rightarrow> csv_row list \<Rightarrow> nat \<Rightarrow> db \<Rightarrow> (exn + nat) \<times> db" where
  "csv_loop e [] imported_count d = (Inr imported_count, d)"
| "csv_loop e (row # rows) imported_count d =
     (case csv_body e row d of
        Inr d' \<Rightarrow> csv_loop e rows (imported_count + 1) d'
      | Inl x \<Rightarrow>
          (if skips_kv x then csv_loop e rows imported_count d
           else (Inl x, d)))"

text \<open>
  The reader is lazy: a file gives its rows and then either ends or raises (a file
  that cannot be opened gives no row and raises).
\<close>

type_synonym csv_src = "csv_row list \<times> exn option"

definition import_csv :: "env \<Rightarrow> csv_src \<Rightarrow> db \<Rightarrow> (exn + nat) \<times> db" where
  "import_csv e src =
     atomic (\<lambda>d.
       case csv_loop e (fst src) 0 d of
         (Inl x, d') \<Rightarrow> (Inl x, d')
       | (Inr n, d') \<Rightarrow>
           (case snd src of
              Some x \<Rightarrow> (Inl x, d')
            | None \<Rightarrow> (Inr n, d')))"

subsection \<open>JSON\<close>

text \<open>\<open>v.get(key, default)\<close>: only a dict has the method.\<close>

fun dict_get :: "pyval \<Rightarrow> string \<Rightarrow> pyval \<Rightarrow> exn + pyval" where
  "dict_get (PDict kvs) k dflt = Inr (case map_of kvs k of None \<Rightarrow> dflt | Some v \<Rightarrow> v)"
| "dict_get PNone k dflt = Inl AttributeError"
| "dict_get (PBool b) k dflt = Inl AttributeError"
| "dict_get (PInt i) k dflt = Inl AttributeError"
| "dict_get (PFloat x) k dflt = Inl AttributeError"
| "dict_get (PStr s) k dflt = Inl AttributeError"
| "dict_get (PList xs) k dflt = Inl AttributeError"

text \<open>\<open>v[key]\<close> with a string key: \<open>KeyError\<close> in a dict, \<open>TypeError\<close> on anything else.\<close>

fun subscript :: "pyval \<Rightarrow> string \<Rightarrow> exn + pyval" where
  "subscript (PDict kvs) k = (case map_of kvs k of None \<Rightarrow> Inl KeyError | Some v \<Rightarrow> Inr v)"
| "subscript PNone k = Inl TypeError"
| "subscript (PBool b) k = Inl TypeError"
| "subscript (PInt i) k = Inl TypeError"
| "subscript (PFloat x) k = Inl TypeError"
| "subscript (PStr s) k = Inl TypeError"
| "subscript (PList xs) k = Inl TypeError"

text \<open>\<open>Decimal(str(v))\<close>.\<close>

definition decimal_str :: "env \<Rightarrow> pyval \<Rightarrow> exn + rat" where
  "decimal_str e v = decimal_of e (str_of e v)"

text \<open>The body of the \<open>try\<close> block of \<open>import_json\<close>, in evaluation order.\<close>

definition json_body :: "env \<Rightarrow> pyval \<Rightarrow> db \<Rightarrow> exn + db" where
  "json_body e item d =
     and_then (dict_get item ''coordinates'' (PDict [])) (\<lambda>coordinates.
     and_then (dict_get item ''ratings'' (PList [])) (\<lambda>ratings.
     and_then (subscript item ''id'') (\<lambda>pid.
     and_then (subscript item ''name'') (\<lambda>pname.
     and_then (and_then (subscript coordinates ''latitude'') (decimal_str e)) (\<lambda>lat.
     and_then (and_then (subscript coordinates ''longitude'') (decimal_str e)) (\<lambda>lon.
     and_then (subscript item ''category'') (\<lambda>cat.
     and_then (dict_get item ''description'' (PStr [])) (\<lambda>descr.
     save e \<lparr>external_id = PStr (str_of e pid), name = pname,
             latitude = lat, longitude = lon, category = cat,
             ratings_data = ratings,
             avg_rating = None, description = descr\<rparr> d))))))))"

fun json_loop :: "env \<Rightarrow> pyval list \<Rightarrow> nat \<Rightarrow> db \<Rightarrow> (exn + nat) \<times> db" where
  "json_loop e [] imported_count d = (Inr imported_count, d)"
| "json_loop e (item # items) imported_count d =
     (case json_body e item d of
        Inr d' \<Rightarrow> json_loop e items (imported_count + 1) d'
      | Inl x \<Rightarrow>
          (if skips_kv x then json_loop e items imported_count d
           else (Inl x, d)))"

text \<open>\<open>if isinstance(data, dict): data = [data]\<close>.\<close>

fun wrap_dict :: "pyval \<Rightarrow> pyval" where
  "wrap_dict (PDict kvs) = PList [PDict kvs]"
| "wrap_dict PNone = PNone"
| "wrap_dict (PBool b) = PBool b"
| "wrap_dict (PInt i) = PInt i"
| "wrap_dict (PFloat x) = PFloat x"
| "wrap_dict (PStr s) = PStr s"
| "wrap_dict (PList xs) = PList xs"

text \<open>
  The source of \<open>import_json\<close> is what \<open>open\<close> and \<open>json.load\<close> give: the document,
  or the exception of a file that cannot be read or parsed.
\<close>

definition import_json :: "env \<Rightarrow> exn + pyval \<Rightarrow> db \<Rightarrow> (exn + nat) \<times> db" where
  "import_json e src =
     atomic (\<lambda>d.
       case src of
         Inl x \<Rightarrow> (Inl x, d)
       | Inr data \<Rightarrow>
           (case iter_of (wrap_dict data) of
              Inl x \<Rightarrow> (Inl x, d)
            | Inr items \<Rightarrow> json_loop e items 0 d))"

subsection \<open>XML\<close>

text \<open>An element: its tag, its text (\<open>None\<close> when it has none) and its children.\<close>

datatype element = Element (elem_tag: string) (elem_text: "string option")
  (elem_children: "element list")

text \<open>\<open>element.find(tag_name)\<close> for a plain tag name: the first child with that tag.\<close>

definition find_child :: "element \<Rightarrow> string \<Rightarrow> element option" where
  "find_child el t = find (\<lambda>c. elem_tag c = t) (elem_children el)"

fun get_xml_text :: "element \<Rightarrow> string list \<Rightarrow> string option" where
  "get_xml_text el [] = None"
| "get_xml_text el (tag_name # tag_names) =
     (case find_child el tag_name of
        None \<Rightarrow> get_xml_text el tag_names
      | Some c \<Rightarrow>
          (case elem_text c of
             None \<Rightarrow> get_xml_text el tag_names
           | Some s \<Rightarrow> (if s \<noteq> [] then Some (strip_ws s) else get_xml_text el tag_names)))"

text \<open>\<open>root.findall('.//tag')\<close>: the descendants with that tag, in document order.\<close>

fun descendants :: "element \<Rightarrow> element list" where
  "descendants (Element t x cs) = concat (map (\<lambda>c. c # descendants c) cs)"

definition findall_desc :: "element \<Rightarrow> string \<Rightarrow> element list" where
  "findall_desc rt t = filter (\<lambda>c. elem_tag c = t) (descendants rt)"

definition poi_elements :: "element \<Rightarrow> element list" where
  "poi_elements rt =
     (let a = findall_desc rt ''poi'' in
      if a \<noteq> [] then a
      else let b = findall_desc rt ''point_of_interest'' in
        if b \<noteq> [] then b else [rt])"

text \<open>The truth value of a resolved field: \<open>None\<close> and the empty string are false.\<close>

definition present :: "string option \<Rightarrow> bool" where
  "present v = (case v of None \<Rightarrow> False | Some s \<Rightarrow> s \<noteq> [])"

text \<open>
  The body of the \<open>try\<close> block of \<open>import_xml\<close>: \<open>Inr None\<close> is the \<open>continue\<close> of
  an element with a missing field, \<open>Inr (Some d')\<close> a saved record.
\<close>

definition xml_body :: "env \<Rightarrow> element \<Rightarrow> db \<Rightarrow> exn + db option" where
  "xml_body e poi_elem d =
     (let pid = get_xml_text poi_elem [''pid'', ''id'', ''poi_id''];
          pname = get_xml_text poi_elem [''pname'', ''name'', ''poi_name''];
          platitude = get_xml_text poi_elem [''platitude'', ''latitude'', ''poi_latitude''];
          plongitude = get_xml_text poi_elem [''plongitude'', ''longitude'', ''poi_longitude''];
          pcategory = get_xml_text poi_elem [''pcategory'', ''category'', ''poi_category''];
          pratings = get_xml_text poi_elem [''pratings'', ''ratings'', ''poi_ratings'']
      in if \<not> list_all present [pid, pname, platitude, plongitude, pcategory] then Inr None
         else
           (and_then (parse_ratings (float_of e) (case pratings of None \<Rightarrow> [] | Some s \<Rightarrow> s)) (\<lambda>ratings.
            and_then (decimal_of e (the platitude)) (\<lambda>lat.
            and_then (decimal_of e (the plongitude)) (\<lambda>lon.
            and_then (save e \<lparr>external_id = PStr (the pid), name = PStr (the pname),
                              latitude = lat, longitude = lon, category = PStr (the pcategory),
                              ratings_data = PList (map PFloat ratings),
                              avg_rating = None, description = PNone\<rparr> d) (\<lambda>d'.
            Inr (Some d')))))))"

text \<open>The handler of \<open>import_xml\<close>.\<close>

definition skips_xml :: "exn \<Rightarrow> bool" where
  "skips_xml x = (x = ValueError \<or> x = InvalidOperation)"

fun xml_loop :: "env \<Rightarrow> element list \<Rightarrow> nat \<Rightarrow> db \<Rightarrow> (exn + nat) \<times> db" where
  "xml_loop e [] imported_count d = (Inr imported_count, d)"
| "xml_loop e (poi_elem # elems) imported_count d =
     (case xml_body e poi_elem d of
        Inr (Some d') \<Rightarrow> xml_loop e elems (imported_count + 1) d'
      | Inr None \<Rightarrow> xml_loop e elems imported_count d
      | Inl x \<Rightarrow>
          (if skips_xml x then xml_loop e elems imported_count d
           else (Inl x, d)))"

text \<open>The source of \<open>import_xml\<close> is what \<open>ET.parse\<close> gives: the root or an exception.\<close>

definition import_xml :: "env \<Rightarrow> exn + element \<Rightarrow> db \<Rightarrow> (exn + nat) \<times> db" where
  "import_xml e src =
     atomic (\<lambda>d.
       case src of
         Inl x \<Rightarrow> (Inl x, d)
       | Inr rt \<Rightarrow> xml_loop e (poi_elements rt) 0 d)"

subsection \<open>Files and the command\<close>

text \<open>
  A file is given by what each reader of the program makes of it; the file system maps
  the paths that exist to their files.
\<close>

record src_file =
  csv_view :: csv_src
  json_view :: "exn + pyval"
  xml_view :: "exn + element"

type_synonym filesystem = "string \<rightharpoonup> src_file"

definition import_file :: "env \<Rightarrow> string \<Rightarrow> src_file \<Rightarrow> db \<Rightarrow> (exn + nat) \<times> db" where
  "import_file e file_path f d =
     (case select_adapter file_path of
        Inl x \<Rightarrow> (Inl x, d)
      | Inr Csv \<Rightarrow> import_csv e (csv_view f) d
      | Inr Json \<Rightarrow> import_json e (json_view f) d
      | Inr Xml \<Rightarrow> import_xml e (xml_view f) d)"

text \<open>The loop over the files in \<open>handle\<close>; every exception of a file is raised again
  as a \<open>CommandError\<close> that names the file, which ends the command.\<close>

fun handle_files :: "env \<Rightarrow> filesystem \<Rightarrow> string list \<Rightarrow> nat \<Rightarrow> db \<Rightarrow> (exn + nat) \<times> db" where
  "handle_files e fs [] total_imported d = (Inr total_imported, d)"
| "handle_files e fs (file_path # paths) total_imported d =
     (case fs file_path of
        None \<Rightarrow> (Inl (FileNotFound file_path), d)
      | Some f \<Rightarrow>
          (case import_file e file_path f d of
             (Inl x, d') \<Rightarrow> (Inl (FileProcessingError file_path x), d')
           | (Inr imported_count, d') \<Rightarrow>
               handle_files e fs paths (total_imported + imported_count) d'))"

definition handle :: "env \<Rightarrow> filesystem \<Rightarrow> bool \<Rightarrow> string list \<Rightarrow> db \<Rightarrow> (exn + nat) \<times> db" where
  "handle e fs clear files d = handle_files e fs files 0 (if clear then [] else d)"

section \<open>The declared validators and a concrete environment\<close>

text \<open>
  The validators that \<open>models.py\<close> declares on \<open>latitude\<close> and \<open>longitude\<close>. The
  framework runs the validators of a field in \<open>full_clean()\<close>; neither \<open>save\<close> in
  \<open>models.py\<close> nor the import command calls it.
\<close>

definition validators_ok :: "poi \<Rightarrow> bool" where
  "validators_ok p =
     (- 90 \<le> latitude p \<and> latitude p \<le> 90 \<and> - 180 \<le> longitude p \<and> longitude p \<le> 180)"

text \<open>
  Plain decimal literals: optional sign, digits, optional fraction, white space around.
  On these \<open>float\<close> and \<open>Decimal\<close> read the number written; the other literals of
  Python (exponents, underscores, \<open>inf\<close>, \<open>nan\<close>) are not read by this function, and the
  examples below do not use them.
\<close>

definition is_digit :: "char \<Rightarrow> bool" where
  "is_digit c = (let n = (of_char c :: nat) in 48 \<le> n \<and> n \<le> 57)"

definition digits_val :: "string \<Rightarrow> nat" where
  "digits_val ds = foldl (\<lambda>a c. 10 * a + (of_char c - 48)) 0 ds"

definition unsigned_literal :: "string \<Rightarrow> rat option" where
  "unsigned_literal u =
     (let ip = takeWhile is_digit u in
      case dropWhile is_digit u of
        [] \<Rightarrow> (if ip = [] then None else Some (of_nat (digits_val ip)))
      | c # fp \<Rightarrow>
          (if c = CHR ''.'' \<and> list_all is_digit fp \<and> ip @ fp \<noteq> []
           then Some (of_nat (digits_val (ip @ fp)) / 10 ^ length fp)
           else None))"

definition dec_literal :: "string \<Rightarrow> rat option" where
  "dec_literal s =
     (case strip_ws s of
        [] \<Rightarrow> None
      | c # u \<Rightarrow>
          (if c = CHR ''-'' then map_option uminus (unsigned_literal u)
           else if c = CHR ''+'' then unsigned_literal u
           else unsigned_literal (c # u)))"

text \<open>
  The environment of the examples: plain decimal literals, \<open>str\<close> on strings (the
  examples apply it to nothing else), and the framework's \<open>save()\<close>, which runs no
  validator and writes every record of the examples.
\<close>

definition float_lit :: "string \<Rightarrow> exn + rat" where
  "float_lit s = (case dec_literal s of None \<Rightarrow> Inl ValueError | Some x \<Rightarrow> Inr x)"

definition decimal_lit :: "string \<Rightarrow> exn + rat" where
  "decimal_lit s = (case dec_literal s of None \<Rightarrow> Inl InvalidOperation | Some x \<Rightarrow> Inr x)"

definition float_fl_lit :: "string \<Rightarrow> exn + pyfloat" where
  "float_fl_lit s =
     (case dec_literal s of None \<Rightarrow> Inl ValueError | Some x \<Rightarrow> Inr (round_fl x))"

definition plain_env :: env where
  "plain_env = \<lparr>float_of = float_fl_lit, decimal_of = decimal_lit,
                 str_of = (\<lambda>v. case v of PStr s \<Rightarrow> s | _ \<Rightarrow> []),
                 db_reject = (\<lambda>p. None)\<rparr>"

section \<open>Definitions that follow the specification's words\<close>

text \<open>
  The stripping step as the specification words it: a single layer of enclosing
  bracket-like delimiters is removed from either end, if present.
\<close>

definition spec_strip_single_layer :: "string \<Rightarrow> string" where
  "spec_strip_single_layer s =
     (let a = (case s of [] \<Rightarrow> [] | c # r \<Rightarrow> (if c \<in> bracket_chars then r else s)) in
      if a \<noteq> [] \<and> last a \<in> bracket_chars then butlast a else a)"




section \<open>Auxiliary notions of the statements\<close>


text \<open>
  What one alias contributes in \<open>get_xml_text\<close>: the text of the first child with that
  tag when it is not empty (the test \<open>elem is not None and elem.text\<close> of the loop).
\<close>

definition alias_text :: "element \<Rightarrow> string \<Rightarrow> string option" where
  "alias_text el t =
     (case find_child el t of
        None \<Rightarrow> None
      | Some c \<Rightarrow> (case elem_text c of
                    None \<Rightarrow> None
                  | Some s \<Rightarrow> (if s \<noteq> [] then Some s else None)))"

section \<open>Example inputs\<close>

text \<open>
  The row that \<open>csv.DictReader\<close> makes of the cells of a line under a header: a column
  that the line does not reach gets the cell \<open>None\<close>.
\<close>

definition poi_header :: "string list" where
  "poi_header = [''poi_id'', ''poi_name'', ''poi_latitude'', ''poi_longitude'',
                 ''poi_category'', ''poi_ratings'']"

definition dict_row :: "string list \<Rightarrow> string list \<Rightarrow> csv_row" where
  "dict_row header cells =
     map_of (zip header (map Some cells @ replicate (length header - length cells) None))"

text \<open>A \<open>poi\<close> element with the given children, each a tag with its text.\<close>

definition xml_poi :: "(string \<times> string) list \<Rightarrow> element" where
  "xml_poi kids = Element ''poi'' None (map (\<lambda>tx. Element (fst tx) (Some (snd tx)) []) kids)"

text \<open>
  The record that a CSV row or an XML element leaves in the table, with finite ratings
  and average.
\<close>

definition stored :: "string \<Rightarrow> string \<Rightarrow> rat \<Rightarrow> rat \<Rightarrow> string \<Rightarrow> rat list \<Rightarrow> rat option \<Rightarrow> poi" where
  "stored i n la lo c rs a =
     \<lparr>external_id = PStr i, name = PStr n, latitude = la, longitude = lo,
      category = PStr c, ratings_data = PList (map (\<lambda>x. PFloat (Fl x)) rs),
      avg_rating = map_option Fl a, description = PNone\<rparr>"



text \<open>
  Example files: a CSV file with the given rows (it is neither JSON nor XML), and a file
  that no reader can parse.
\<close>

definition csv_file :: "csv_row list \<Rightarrow> src_file" where
  "csv_file rows = \<lparr>csv_view = (rows, None), json_view = Inl ValueError,
                     xml_view = Inl (OtherError ''ParseError'')\<rparr>"

definition malformed_file :: src_file where
  "malformed_file = \<lparr>csv_view = ([], None), json_view = Inl ValueError,
                      xml_view = Inl (OtherError ''ParseError'')\<rparr>"

section \<open>The float range\<close>

text \<open>The limit as a numeral, for evaluation.\<close>

lemma dbl_limit_code [code]:
  "dbl_limit = 179769313486231580793728971405303415079934132710037826936173778980444968292764750946649017977587207096330286416692887910946555547851940402630657488671505820681908902000708383676273854845817711531764475730270069855571366959622842914819860834936475292719074168444365510704342711559699508093042880177904174497792"
  by (simp add: dbl_limit_def)

section \<open>Properties of the ratings parser\<close>

lemma and_then_simps [simp]:
  "and_then (Inl x) f = Inl x"
  "and_then (Inr v) f = f v"
  by (simp_all add: and_then_def)











lemma strip_by_decomp:
  "\<exists>pre post. s = pre @ strip_by P s @ post \<and> (\<forall>x\<in>set pre. P x) \<and> (\<forall>x\<in>set post. P x)"
proof -
  let ?t = "dropWhile P s"
  have 1: "s = takeWhile P s @ ?t" by simp
  have "?t = rev (takeWhile P (rev ?t) @ dropWhile P (rev ?t))"
    by (simp only: takeWhile_dropWhile_id rev_rev_ident)
  then have 2: "?t = strip_by P s @ rev (takeWhile P (rev ?t))"
    by (simp only: rev_append strip_by_def)
  have "s = takeWhile P s @ strip_by P s @ rev (takeWhile P (rev ?t))"
    using 1 2 by metis
  moreover have "\<forall>x\<in>set (takeWhile P s). P x"
    by (auto dest: set_takeWhileD)
  moreover have "\<forall>x\<in>set (rev (takeWhile P (rev ?t))). P x"
    by (auto dest: set_takeWhileD)
  ultimately show ?thesis by blast
qed

lemma strip_by_ends:
  assumes "strip_by P s \<noteq> []"
  shows "\<not> P (hd (strip_by P s)) \<and> \<not> P (last (strip_by P s))"
proof -
  let ?t = "dropWhile P s"
  let ?u = "dropWhile P (rev ?t)"
  from assms have u: "?u \<noteq> []" by (simp add: strip_by_def)
  have t: "?t \<noteq> []"
  proof
    assume "?t = []"
    then have "?u = []" by (simp only: rev.simps dropWhile.simps)
    with u show False by contradiction
  qed
  have "last (strip_by P s) = hd ?u"
    using u by (simp add: strip_by_def last_rev)
  moreover have "\<not> P (hd ?u)" using u by (rule hd_dropWhile)
  moreover have "prefix (strip_by P s) ?t"
    unfolding strip_by_def by (metis suffix_dropWhile suffix_to_prefix rev_rev_ident)
  then have "hd (strip_by P s) = hd ?t"
    using assms by (auto simp: prefix_def)
  moreover have "\<not> P (hd ?t)" using t by (rule hd_dropWhile)
  ultimately show ?thesis by simp
qed

text \<open>
  Claim C5, as amended. Before splitting on commas the parser removes every leading and
  every trailing bracket-like character, however many layers there are: the input is
  \<open>pre @ s' @ post\<close> with \<open>pre\<close> and \<open>post\<close> made of bracket characters only, the text
  \<open>s'\<close> that is split neither starts nor ends with a bracket character, and the result
  is the loop over the comma pieces of \<open>s'\<close> (the empty sequence when \<open>s'\<close> is empty).
\<close>

theorem parse_ratings_strips_all_brackets:
  "\<exists>pre post.
     s = pre @ strip_by (\<lambda>c. c \<in> bracket_chars) s @ post \<and>
     set pre \<subseteq> bracket_chars \<and> set post \<subseteq> bracket_chars \<and>
     (strip_by (\<lambda>c. c \<in> bracket_chars) s \<noteq> [] \<longrightarrow>
        hd (strip_by (\<lambda>c. c \<in> bracket_chars) s) \<notin> bracket_chars \<and>
        last (strip_by (\<lambda>c. c \<in> bracket_chars) s) \<notin> bracket_chars) \<and>
     parse_ratings fl s =
       (if strip_by (\<lambda>c. c \<in> bracket_chars) s = [] then Inr []
        else ratings_loop fl (split_on (CHR '','') (strip_by (\<lambda>c. c \<in> bracket_chars) s)) [])"
proof -
  let ?P = "\<lambda>c. c \<in> bracket_chars"
  obtain pre post where d: "s = pre @ strip_by ?P s @ post"
    "\<forall>x\<in>set pre. ?P x" "\<forall>x\<in>set post. ?P x"
    using strip_by_decomp [of s ?P] by blast
  have e: "strip_by ?P [] = []" by (simp add: strip_by_def)
  have "parse_ratings fl s =
       (if strip_by ?P s = [] then Inr []
        else ratings_loop fl (split_on (CHR '','') (strip_by ?P s)) [])"
    using e by (cases "s = []") (auto simp: parse_ratings_def Let_def)
  with d strip_by_ends [of ?P s] show ?thesis by blast
qed

theorem parse_ratings_strips_all_brackets_witness:
  "strip_by (\<lambda>c. c \<in> bracket_chars) ''[[4,5]]'' = ''4,5'' \<and>
   (\<exists>pre post. ''[[4,5]]'' = pre @ ''4,5'' @ post \<and> set pre \<subseteq> bracket_chars \<and> set post \<subseteq> bracket_chars) \<and>
   parse_ratings float_lit ''[[4,5]]'' = ratings_loop float_lit [''4'', ''5''] []"
proof -
  have a: "strip_by (\<lambda>c. c \<in> bracket_chars) ''[[4,5]]'' = ''4,5''"
    by (simp add: strip_by_def bracket_chars_def)
  have b: "split_on (CHR '','') ''4,5'' = [''4'', ''5'']" by simp
  from parse_ratings_strips_all_brackets [of "''[[4,5]]''" float_lit] a b
  show ?thesis by auto
qed

text \<open>
  Claim C5 as stated fails at \<open>[[4,5]]\<close>: removing a single layer would leave \<open>[4,5]\<close>,
  whose pieces \<open>[4\<close> and \<open>5]\<close> are no numbers; the parser removes both layers and
  returns 4 and 5.
\<close>

theorem single_layer_counterexample:
  "spec_strip_single_layer ''[[4,5]]'' = ''[4,5]'' \<and>
   strip_by (\<lambda>c. c \<in> bracket_chars) ''[[4,5]]'' = ''4,5'' \<and>
   parse_ratings float_lit ''[[4,5]]'' = Inr [4, 5] \<and>
   ratings_loop float_lit (split_on (CHR '','') (spec_strip_single_layer ''[[4,5]]'')) [] = Inr []"
  by code_simp

section \<open>Properties of the field resolution\<close>

lemma get_xml_text_map_filter:
  "get_xml_text el aliases =
     (case List.map_filter (alias_text el) aliases of
        [] \<Rightarrow> None
      | s # rest \<Rightarrow> Some (strip_ws s))"
  by (induction aliases)
     (auto simp: List.map_filter_simps alias_text_def split: option.splits)

text \<open>
  Claim C8, as amended. Field resolution goes through the aliases in order and returns
  the trimmed text of the first alias whose first matching child has a non-empty text;
  an alias whose child has no text or an empty one is passed over, and the result is
  null when no alias is left. In particular, when the \<open>platitude\<close> tag is absent and the
  \<open>latitude\<close> child has a non-empty text, latitude is resolved from the \<open>latitude\<close> child.
\<close>

theorem get_xml_text_first_alias_with_text:
  "get_xml_text el aliases =
     (case List.map_filter (alias_text el) aliases of
        [] \<Rightarrow> None
      | s # rest \<Rightarrow> Some (strip_ws s)) \<and>
   (find_child el ''platitude'' = None \<and> find_child el ''latitude'' = Some c \<and>
    elem_text c = Some s \<and> s \<noteq> [] \<longrightarrow>
      get_xml_text el [''platitude'', ''latitude'', ''poi_latitude''] = Some (strip_ws s))"
proof (intro conjI impI)
  show "get_xml_text el aliases =
     (case List.map_filter (alias_text el) aliases of
        [] \<Rightarrow> None
      | s # rest \<Rightarrow> Some (strip_ws s))"
    by (rule get_xml_text_map_filter)
next
  assume "find_child el ''platitude'' = None \<and> find_child el ''latitude'' = Some c \<and>
    elem_text c = Some s \<and> s \<noteq> []"
  then show "get_xml_text el [''platitude'', ''latitude'', ''poi_latitude''] = Some (strip_ws s)"
    by simp
qed

theorem get_xml_text_first_alias_with_text_witness:
  "get_xml_text (Element ''poi'' None [Element ''latitude'' (Some '' 40.5 '') []])
     [''platitude'', ''latitude'', ''poi_latitude''] = Some ''40.5''"
proof -
  let ?c = "Element ''latitude'' (Some '' 40.5 '') []"
  let ?el = "Element ''poi'' None [?c]"
  have 1: "find_child ?el ''platitude'' = None" by (simp add: find_child_def)
  have 2: "find_child ?el ''latitude'' = Some ?c" by (simp add: find_child_def)
  have 3: "elem_text ?c = Some '' 40.5 ''" by simp
  have 4: "'' 40.5 '' \<noteq> []" by simp
  have 5: "strip_ws '' 40.5 '' = ''40.5''"
    by (simp add: strip_ws_def strip_by_def is_space_def)
  from get_xml_text_first_alias_with_text [of ?el "[]" ?c "'' 40.5 ''"] 1 2 3 4 5
  show ?thesis by simp
qed

text \<open>
  Claim C8 as stated fails: a matched text of white space only gives the empty string,
  not null; and when the first matching child has no text, a later alias is used.
\<close>

theorem get_xml_text_blank_counterexample:
  "get_xml_text (Element ''poi'' None [Element ''pid'' (Some ''  '') []])
     [''pid'', ''id'', ''poi_id''] = Some [] \<and>
   get_xml_text (Element ''poi'' None [Element ''pid'' None [], Element ''id'' (Some ''7'') []])
     [''pid'', ''id'', ''poi_id''] = Some ''7''"
  by (simp add: find_child_def strip_ws_def strip_by_def is_space_def)

section \<open>Properties of the adapter selection\<close>

lemma of_char_lower:
  "(of_char (lower_char c) :: nat) =
     (let n = of_char c in
      if 65 \<le> n \<and> n \<le> 90 then n + 32
      else if 192 \<le> n \<and> n \<le> 222 \<and> n \<noteq> 215 then n + 32 else n)"
  by (simp add: lower_char_def Let_def)

lemma char_eq_code: "(c = d) = ((of_char c :: nat) = of_char d)"
  by simp

lemma lower_char_dot [simp]: "(lower_char c = CHR ''.'') = (c = CHR ''.'')"
  unfolding char_eq_code [of _ "CHR ''.''"] of_char_lower
  by (simp add: Let_def)

lemma lower_char_slash [simp]: "(lower_char c = CHR ''/'') = (c = CHR ''/'')"
  unfolding char_eq_code [of _ "CHR ''/''"] of_char_lower
  by (simp add: Let_def)

lemma rfind_map:
  assumes "\<And>x. (f x = c) = (x = c)"
  shows "rfind c (map f s) = rfind c s"
proof -
  have "(c \<in> set (map f s)) = (\<exists>x\<in>set s. f x = c)" by auto
  also have "\<dots> = (\<exists>x\<in>set s. x = c)" using assms by simp
  finally have m: "(c \<in> set (map f s)) = (c \<in> set s)" by simp
  have "takeWhile (\<lambda>x. x \<noteq> c) (rev (map f s)) = map f (takeWhile (\<lambda>x. x \<noteq> c) (rev s))"
    using assms by (simp add: rev_map takeWhile_map comp_def)
  then show ?thesis
    unfolding rfind_def m by simp
qed

lemma splitext_lower: "splitext (lower p) = (lower (fst (splitext p)), lower (snd (splitext p)))"
proof -
  have s: "rfind (CHR ''/'') (lower p) = rfind (CHR ''/'') p"
    unfolding lower_def by (rule rfind_map) simp
  have d: "rfind (CHR ''.'') (lower p) = rfind (CHR ''.'') p"
    unfolding lower_def by (rule rfind_map) simp
  have dw: "dropWhile (\<lambda>c. c = CHR ''.'') (map lower_char xs) =
            map lower_char (dropWhile (\<lambda>c. c = CHR ''.'') xs)" for xs
    by (simp add: dropWhile_map comp_def)
  define a where "a = nat (rfind (CHR ''/'') p + 1)"
  define b where "b = nat (rfind (CHR ''.'') p)"
  define seg where "seg = dropWhile (\<lambda>c. c = CHR ''.'') (drop a (take b p))"
  have "dropWhile (\<lambda>c. c = CHR ''.'') (drop a (take b (map lower_char p))) = map lower_char seg"
    unfolding seg_def by (simp only: take_map drop_map dw)
  then have c: "(dropWhile (\<lambda>c. c = CHR ''.'') (drop a (take b (lower p))) \<noteq> []) = (seg \<noteq> [])"
    unfolding lower_def by (simp only: map_is_Nil_conv)
  have l: "splitext (lower p) =
     (if rfind (CHR ''.'') p > rfind (CHR ''/'') p \<and> seg \<noteq> []
      then (take b (lower p), drop b (lower p)) else (lower p, []))"
    unfolding splitext_def s d Let_def a_def [symmetric] b_def [symmetric] c ..
  have r: "splitext p =
     (if rfind (CHR ''.'') p > rfind (CHR ''/'') p \<and> seg \<noteq> []
      then (take b p, drop b p) else (p, []))"
    unfolding splitext_def Let_def a_def [symmetric] b_def [symmetric] seg_def ..
  show ?thesis
    unfolding l r by (simp add: lower_def take_map drop_map)
qed

text \<open>
  Claim C10. The adapter depends on the path only through its lowercased form, and it is
  chosen by the lowercased extension of the path as given: lowercasing the path before
  \<open>splitext\<close> gives the lowercased extension of the original path.
\<close>

theorem select_adapter_case_insensitive:
  "(lower p = lower q \<longrightarrow> select_adapter p = select_adapter q) \<and>
   select_adapter p =
     (let ext = lower (snd (splitext p)) in
      if ext = ''.csv'' then Inr Csv
      else if ext = ''.json'' then Inr Json
      else if ext = ''.xml'' then Inr Xml
      else Inl (UnsupportedFormat ext))"
  by (simp add: select_adapter_def splitext_lower)

theorem select_adapter_case_insensitive_witness:
  "select_adapter ''data/POI.CSV'' = Inr Csv \<and> select_adapter ''data/poi.csv'' = Inr Csv \<and>
   select_adapter ''Places.Json'' = Inr Json \<and> select_adapter ''Places.XML'' = Inr Xml"
proof -
  have l: "lower ''data/POI.CSV'' = lower ''data/poi.csv''" by code_simp
  have a: "select_adapter ''data/poi.csv'' = Inr Csv" by code_simp
  have e1: "lower (snd (splitext ''Places.Json'')) = ''.json''" by code_simp
  have e2: "lower (snd (splitext ''Places.XML'')) = ''.xml''" by code_simp
  from select_adapter_case_insensitive [of "''data/POI.CSV''" "''data/poi.csv''"] l a
  have 1: "select_adapter ''data/POI.CSV'' = Inr Csv" by simp
  from select_adapter_case_insensitive [of "''Places.Json''" "''Places.Json''"] e1
  have 2: "select_adapter ''Places.Json'' = Inr Json" by simp
  from select_adapter_case_insensitive [of "''Places.XML''" "''Places.XML''"] e2
  have 3: "select_adapter ''Places.XML'' = Inr Xml" by simp
  from 1 a 2 3 show ?thesis by blast
qed

section \<open>Properties of the import of a file\<close>

lemma atomic_cases:
  "atomic body d = (Inl x, d') \<Longrightarrow> d' = d"
  "atomic body d = (Inr v, d') \<Longrightarrow> body d = (Inr v, d')"
  by (auto simp: atomic_def split: prod.splits sum.splits)


lemma save_from_empty:
  "save e p d = (case save e p [] of Inl x \<Rightarrow> Inl x | Inr new \<Rightarrow> Inr (d @ new))"
  by (auto simp: save_def Let_def split: sum.splits option.splits)

lemma save_one: "save e p [] = Inr new \<Longrightarrow> length new = 1"
  by (auto simp: save_def Let_def split: sum.splits option.splits)

lemma and_then_case:
  "(case and_then m f of Inl x \<Rightarrow> Inl x | Inr v \<Rightarrow> g v) =
   and_then m (\<lambda>a. case f a of Inl x \<Rightarrow> Inl x | Inr v \<Rightarrow> g v)"
  by (cases m) simp_all

lemma csv_body_from_empty:
  "csv_body e row d = (case csv_body e row [] of Inl x \<Rightarrow> Inl x | Inr new \<Rightarrow> Inr (d @ new))"
  unfolding csv_body_def and_then_case
  by (subst save_from_empty) simp

lemma and_then_Inr: "and_then m f = Inr v \<Longrightarrow> \<exists>a. m = Inr a \<and> f a = Inr v"
  by (cases m) simp_all

lemma csv_body_one: "csv_body e row [] = Inr new \<Longrightarrow> length new = 1"
  unfolding csv_body_def
  by (auto dest!: and_then_Inr dest: save_one)

lemma json_body_from_empty:
  "json_body e item d = (case json_body e item [] of Inl x \<Rightarrow> Inl x | Inr new \<Rightarrow> Inr (d @ new))"
  unfolding json_body_def and_then_case
  by (subst save_from_empty) simp

lemma json_body_one: "json_body e item [] = Inr new \<Longrightarrow> length new = 1"
  unfolding json_body_def
  by (auto dest!: and_then_Inr dest: save_one)


lemma xml_body_from_empty:
  "xml_body e el d =
     (case xml_body e el [] of
        Inl x \<Rightarrow> Inl x
      | Inr None \<Rightarrow> Inr None
      | Inr (Some new) \<Rightarrow> Inr (Some (d @ new)))"
proof -
  have s: "and_then (save e p d) (\<lambda>d'. Inr (Some d')) =
           (case and_then (save e p []) (\<lambda>d'. Inr (Some d')) of
              Inl x \<Rightarrow> Inl x
            | Inr None \<Rightarrow> Inr None
            | Inr (Some new) \<Rightarrow> Inr (Some (d @ new)))" for p
    by (subst save_from_empty) (simp split: sum.splits)
  have c: "(case and_then m f of Inl x \<Rightarrow> Inl x | Inr None \<Rightarrow> Inr None
              | Inr (Some new) \<Rightarrow> Inr (Some (d @ new))) =
           and_then m (\<lambda>a. case f a of Inl x \<Rightarrow> Inl x | Inr None \<Rightarrow> Inr None
              | Inr (Some new) \<Rightarrow> Inr (Some (d @ new)))" for m :: "exn + 'a" and f
    by (cases m) simp_all
  show ?thesis
    unfolding xml_body_def Let_def
    by (simp add: c s)
qed

lemma xml_body_one: "xml_body e el [] = Inr (Some new) \<Longrightarrow> length new = 1"
  unfolding xml_body_def Let_def
  by (auto dest!: and_then_Inr dest: save_one split: if_splits)

lemma csv_loop_grows:
  "csv_loop e rows n d = (r, d') \<Longrightarrow>
   \<exists>new. d' = d @ new \<and> (\<forall>m. r = Inr m \<longrightarrow> m = n + length new)"
proof (induction rows arbitrary: n d)
  case Nil
  then show ?case by auto
next
  case (Cons row rows)
  show ?case
  proof (cases "csv_body e row [] ")
    case (Inl x)
    then have b: "csv_body e row d = Inl x"
      by (subst csv_body_from_empty) simp
    show ?thesis
    proof (cases "skips_kv x")
      case True
      then show ?thesis using Cons b by simp
    next
      case False
      then show ?thesis using Cons.prems b by auto
    qed
  next
    case (Inr new)
    then have b: "csv_body e row d = Inr (d @ new)"
      by (subst csv_body_from_empty) simp
    have l: "length new = 1" using Inr by (rule csv_body_one)
    from Cons.prems b have "csv_loop e rows (n + 1) (d @ new) = (r, d')" by simp
    from Cons.IH [OF this] l show ?thesis by auto
  qed
qed

lemma json_loop_grows:
  "json_loop e items n d = (r, d') \<Longrightarrow>
   \<exists>new. d' = d @ new \<and> (\<forall>m. r = Inr m \<longrightarrow> m = n + length new)"
proof (induction items arbitrary: n d)
  case Nil
  then show ?case by auto
next
  case (Cons item items)
  show ?case
  proof (cases "json_body e item []")
    case (Inl x)
    then have b: "json_body e item d = Inl x"
      by (subst json_body_from_empty) simp
    show ?thesis
    proof (cases "skips_kv x")
      case True
      then show ?thesis using Cons b by simp
    next
      case False
      then show ?thesis using Cons.prems b by auto
    qed
  next
    case (Inr new)
    then have b: "json_body e item d = Inr (d @ new)"
      by (subst json_body_from_empty) simp
    have l: "length new = 1" using Inr by (rule json_body_one)
    from Cons.prems b have "json_loop e items (n + 1) (d @ new) = (r, d')" by simp
    from Cons.IH [OF this] l show ?thesis by auto
  qed
qed

lemma xml_loop_grows:
  "xml_loop e els n d = (r, d') \<Longrightarrow>
   \<exists>new. d' = d @ new \<and> (\<forall>m. r = Inr m \<longrightarrow> m = n + length new)"
proof (induction els arbitrary: n d)
  case Nil
  then show ?case by auto
next
  case (Cons el els)
  show ?case
  proof (cases "xml_body e el []")
    case (Inl x)
    then have b: "xml_body e el d = Inl x"
      by (subst xml_body_from_empty) simp
    show ?thesis
    proof (cases "skips_xml x")
      case True
      then show ?thesis using Cons b by simp
    next
      case False
      then show ?thesis using Cons.prems b by auto
    qed
  next
    case (Inr v)
    show ?thesis
    proof (cases v)
      case None
      then have b: "xml_body e el d = Inr None"
        using Inr by (subst xml_body_from_empty) simp
      then show ?thesis using Cons by simp
    next
      case (Some new)
      then have b: "xml_body e el d = Inr (Some (d @ new))"
        using Inr by (subst xml_body_from_empty) simp
      have l: "length new = 1" using Inr Some xml_body_one by blast
      from Cons.prems b have "xml_loop e els (n + 1) (d @ new) = (r, d')" by simp
      from Cons.IH [OF this] l show ?thesis by auto
    qed
  qed
qed





lemma import_csv_fail: "import_csv e src d = (Inl x, d') \<Longrightarrow> d' = d"
  unfolding import_csv_def by (rule atomic_cases(1))

lemma import_json_fail: "import_json e src d = (Inl x, d') \<Longrightarrow> d' = d"
  unfolding import_json_def by (rule atomic_cases(1))

lemma import_xml_fail: "import_xml e src d = (Inl x, d') \<Longrightarrow> d' = d"
  unfolding import_xml_def by (rule atomic_cases(1))

lemma import_csv_ok:
  assumes "import_csv e src d = (Inr n, d')"
  shows "\<exists>new. d' = d @ new \<and> length new = n"
proof -
  obtain r d1 where l: "csv_loop e (fst src) 0 d = (r, d1)" by (cases "csv_loop e (fst src) 0 d")
  from assms have "(case csv_loop e (fst src) 0 d of
         (Inl x, d') \<Rightarrow> (Inl x, d')
       | (Inr n, d') \<Rightarrow> (case snd src of Some x \<Rightarrow> (Inl x, d') | None \<Rightarrow> (Inr n, d'))) = (Inr n, d')"
    unfolding import_csv_def by (rule atomic_cases(2))
  with l have "r = Inr n" "d1 = d'"
    by (auto split: sum.splits option.splits)
  with csv_loop_grows [OF l] show ?thesis by auto
qed

lemma import_json_ok:
  assumes "import_json e src d = (Inr n, d')"
  shows "\<exists>new. d' = d @ new \<and> length new = n"
proof -
  from assms have "(case src of
         Inl x \<Rightarrow> (Inl x, d)
       | Inr data \<Rightarrow>
           (case iter_of (wrap_dict data) of
              Inl x \<Rightarrow> (Inl x, d)
            | Inr items \<Rightarrow> json_loop e items 0 d)) = (Inr n, d')"
    unfolding import_json_def by (rule atomic_cases(2))
  then obtain items where "json_loop e items 0 d = (Inr n, d')"
    by (auto split: sum.splits)
  from json_loop_grows [OF this] show ?thesis by auto
qed

lemma import_xml_ok:
  assumes "import_xml e src d = (Inr n, d')"
  shows "\<exists>new. d' = d @ new \<and> length new = n"
proof -
  from assms have "(case src of
         Inl x \<Rightarrow> (Inl x, d)
       | Inr rt \<Rightarrow> xml_loop e (poi_elements rt) 0 d) = (Inr n, d')"
    unfolding import_xml_def by (rule atomic_cases(2))
  then obtain els where "xml_loop e els 0 d = (Inr n, d')"
    by (auto split: sum.splits)
  from xml_loop_grows [OF this] show ?thesis by auto
qed






section \<open>Properties of the command\<close>

lemma import_file_fail: "import_file e p f d = (Inl x, d') \<Longrightarrow> d' = d"
  unfolding import_file_def
  by (auto split: sum.splits adapter.splits
      dest: import_csv_fail import_json_fail import_xml_fail)

lemma import_file_ok:
  "import_file e p f d = (Inr n, d') \<Longrightarrow> \<exists>new. d' = d @ new \<and> length new = n"
  unfolding import_file_def
  by (auto split: sum.splits adapter.splits
      dest: import_csv_ok import_json_ok import_xml_ok)

lemma handle_files_append:
  "handle_files e fs (pre @ rest) t d =
     (case handle_files e fs pre t d of
        (Inl x, d') \<Rightarrow> (Inl x, d')
      | (Inr n, d') \<Rightarrow> handle_files e fs rest n d')"
  by (induction pre arbitrary: t d) (auto split: option.splits prod.splits sum.splits)

lemma handle_files_grows:
  "handle_files e fs paths t d = (r, d') \<Longrightarrow> \<exists>new. d' = d @ new"
proof (induction paths arbitrary: t d)
  case Nil
  then show ?case by simp
next
  case (Cons p ps)
  show ?case
  proof (cases "fs p")
    case None
    then show ?thesis using Cons.prems by simp
  next
    case (Some f)
    obtain r1 d1 where i: "import_file e p f d = (r1, d1)" by (cases "import_file e p f d")
    show ?thesis
    proof (cases r1)
      case (Inl x)
      then have "d1 = d" using i import_file_fail by blast
      then show ?thesis using Cons.prems Some i Inl by simp
    next
      case (Inr n)
      then obtain new where n: "d1 = d @ new" using i import_file_ok by blast
      from Cons.prems Some i Inr have "handle_files e fs ps (t + n) d1 = (r, d')" by simp
      from Cons.IH [OF this] n show ?thesis by auto
    qed
  qed
qed

text \<open>
  Claim C3, as amended. When the files before \<open>p\<close> are imported and the import of \<open>p\<close>
  raises, the command ends with a \<open>CommandError\<close> that names \<open>p\<close> and wraps the
  exception, whatever files follow: they are not processed. The table then holds what
  the earlier files left (the records of \<open>p\<close> are rolled back), on top of the table at
  the start (emptied first when \<open>clear\<close> is set).
\<close>

theorem fatal_file_aborts_run:
  "handle e fs clear pre d = (Inr n, d1) \<and> fs p = Some f \<and>
   import_file e p f d1 = (Inl x, d2) \<longrightarrow>
     handle e fs clear (pre @ p # post) d = (Inl (FileProcessingError p x), d1) \<and>
     (\<exists>new. d1 = (if clear then [] else d) @ new)"
proof
  assume a: "handle e fs clear pre d = (Inr n, d1) \<and> fs p = Some f \<and>
    import_file e p f d1 = (Inl x, d2)"
  then have "d2 = d1" using import_file_fail by blast
  with a have "handle e fs clear (pre @ p # post) d = (Inl (FileProcessingError p x), d1)"
    by (simp add: handle_def handle_files_append)
  moreover have "\<exists>new. d1 = (if clear then [] else d) @ new"
    using a handle_files_grows unfolding handle_def by blast
  ultimately show "handle e fs clear (pre @ p # post) d = (Inl (FileProcessingError p x), d1) \<and>
     (\<exists>new. d1 = (if clear then [] else d) @ new)" by blast
qed

theorem fatal_file_aborts_run_witness:
  "handle plain_env
     (map_of [(''a.csv'', csv_file [dict_row poi_header [''id1'', ''Cafe'', ''40.0'', ''-73.0'', ''food'', ''[4,5]'']]),
              (''b.xml'', malformed_file),
              (''c.csv'', csv_file [dict_row poi_header [''id3'', ''Bar'', ''41.5'', ''-70'', ''food'', []]])])
     False [''a.csv'', ''b.xml'', ''c.csv''] []
   = (Inl (FileProcessingError ''b.xml'' (OtherError ''ParseError'')),
      [stored ''id1'' ''Cafe'' 40 (- 73) ''food'' [4, 5] (Some (9 / 2))])"
proof -
  define fs where "fs = map_of
    [(''a.csv'', csv_file [dict_row poi_header [''id1'', ''Cafe'', ''40.0'', ''-73.0'', ''food'', ''[4,5]'']]),
     (''b.xml'', malformed_file),
     (''c.csv'', csv_file [dict_row poi_header [''id3'', ''Bar'', ''41.5'', ''-70'', ''food'', []]])]"
  define s1 where "s1 = stored ''id1'' ''Cafe'' 40 (- 73) ''food'' [4, 5] (Some (9 / 2))"
  define perr where "perr = OtherError ''ParseError''"
  have 1: "handle plain_env fs False [''a.csv''] [] = (Inr 1, [s1])"
    unfolding fs_def s1_def by code_simp
  have 2: "fs ''b.xml'' = Some malformed_file"
    unfolding fs_def by simp
  have 3: "import_file plain_env ''b.xml'' malformed_file [s1] = (Inl perr, [s1])"
    unfolding s1_def perr_def by code_simp
  from 1 2 3 have "handle plain_env fs False [''a.csv''] [] = (Inr 1, [s1]) \<and>
      fs ''b.xml'' = Some malformed_file \<and>
      import_file plain_env ''b.xml'' malformed_file [s1] = (Inl perr, [s1])"
    by (intro conjI)
  then have "handle plain_env fs False ([''a.csv''] @ ''b.xml'' # [''c.csv'']) []
             = (Inl (FileProcessingError ''b.xml'' perr), [s1])"
    by (rule fatal_file_aborts_run [rule_format, THEN conjunct1])
  then show ?thesis
    unfolding fs_def s1_def perr_def by simp
qed

text \<open>
  Claim C3 as stated fails: after the malformed \<open>b.xml\<close> the valid \<open>c.csv\<close> is not
  imported (alone it gives one record); the command has ended with the error.
\<close>

theorem later_files_not_processed_counterexample:
  "handle plain_env
     (map_of [(''b.xml'', malformed_file),
              (''c.csv'', csv_file [dict_row poi_header [''id3'', ''Bar'', ''41.5'', ''-70'', ''food'', []]])])
     False [''b.xml'', ''c.csv''] []
   = (Inl (FileProcessingError ''b.xml'' (OtherError ''ParseError'')), []) \<and>
   handle plain_env
     (map_of [(''b.xml'', malformed_file),
              (''c.csv'', csv_file [dict_row poi_header [''id3'', ''Bar'', ''41.5'', ''-70'', ''food'', []]])])
     False [''c.csv''] []
   = (Inr 1, [stored ''id3'' ''Bar'' (83 / 2) (- 70) ''food'' [] None])"
  by code_simp

text \<open>
  Claim C2 (a defect of the code). A CSV row with latitude 95 fails the validators that
  \<open>models.py\<close> declares, yet with the framework's \<open>save()\<close>, which does not run them,
  the row is imported like its valid sibling: nothing rejects it and nothing is skipped.
\<close>

theorem out_of_range_latitude_imported:
  "\<not> validators_ok (stored ''id1'' ''Cafe'' 95 (- 73) ''food'' [4, 5] (Some (9 / 2))) \<and>
   import_csv plain_env
     ([dict_row poi_header [''id1'', ''Cafe'', ''95'', ''-73.0'', ''food'', ''[4,5]''],
       dict_row poi_header [''id2'', ''Bar'', ''40.0'', ''-73.0'', ''food'', ''[3]'']], None) []
   = (Inr 2, [stored ''id1'' ''Cafe'' 95 (- 73) ''food'' [4, 5] (Some (9 / 2)),
              stored ''id2'' ''Bar'' 40 (- 73) ''food'' [3] (Some 3)])"
  by code_simp

section \<open>Properties of the rating aggregation\<close>











lemma floats_of_ok:
  "\<forall>r\<in>set items. r \<noteq> PNone \<longrightarrow> \<not> isl (to_float e r) \<Longrightarrow>
   floats_of e items = Inr (map (\<lambda>r. projr (to_float e r)) (filter (\<lambda>r. r \<noteq> PNone) items))"
proof (induction items)
  case Nil
  then show ?case by simp
next
  case (Cons r rs)
  then show ?case by (cases "to_float e r") auto
qed

lemma floats_of_fail:
  "\<exists>r\<in>set items. r \<noteq> PNone \<and> isl (to_float e r) \<Longrightarrow>
   \<exists>x. floats_of e items = Inl x \<and> (\<exists>r\<in>set items. to_float e r = Inl x)"
proof (induction items)
  case Nil
  then show ?case by simp
next
  case (Cons r rs)
  show ?case
  proof (cases "r = PNone")
    case True
    then show ?thesis using Cons by auto
  next
    case False
    show ?thesis
    proof (cases "to_float e r")
      case (Inl x)
      then show ?thesis using False by auto
    next
      case (Inr v)
      then have "\<exists>r\<in>set rs. r \<noteq> PNone \<and> isl (to_float e r)"
        using Cons.prems by auto
      then obtain x where "floats_of e rs = Inl x" "\<exists>r\<in>set rs. to_float e r = Inl x"
        using Cons.IH by blast
      then show ?thesis using False Inr by auto
    qed
  qed
qed

text \<open>
  Claim C7, as amended. Provided no entry of the list makes \<open>float\<close> raise anything but
  \<open>ValueError\<close> or \<open>TypeError\<close>, \<open>save\<close> stores the average computed from the current
  ratings, whatever \<open>avg_rating\<close> held before. The average is null exactly when the list
  has no non-null entry or some non-null entry is refused by \<open>float\<close>; when every
  non-null entry converts and there is at least one, it is their float mean.
\<close>

theorem avg_rating_recomputed:
  assumes h: "\<forall>r\<in>set items. \<forall>x. to_float e r = Inl x \<longrightarrow> x = ValueError \<or> x = TypeError"
  shows "\<exists>a. calc_avg e (PList items) = Inr a \<and>
           (a = None \<longleftrightarrow>
              filter (\<lambda>r. r \<noteq> PNone) items = [] \<or>
              (\<exists>r\<in>set items. r \<noteq> PNone \<and> isl (to_float e r))) \<and>
           ((\<forall>r\<in>set items. r \<noteq> PNone \<longrightarrow> \<not> isl (to_float e r)) \<and>
            filter (\<lambda>r. r \<noteq> PNone) items \<noteq> [] \<longrightarrow>
              a = Some (fdiv_len
                         (fsum (map (\<lambda>r. projr (to_float e r)) (filter (\<lambda>r. r \<noteq> PNone) items)))
                         (length (filter (\<lambda>r. r \<noteq> PNone) items)))) \<and>
           (save e (p\<lparr>ratings_data := PList items, avg_rating := a0\<rparr>) d =
              (case db_reject e (p\<lparr>ratings_data := PList items, avg_rating := a\<rparr>) of
                 Some x \<Rightarrow> Inl x
               | None \<Rightarrow> Inr (d @ [p\<lparr>ratings_data := PList items, avg_rating := a\<rparr>])))"
proof (cases "\<exists>r\<in>set items. r \<noteq> PNone \<and> isl (to_float e r)")
  case True
  then obtain x where x: "floats_of e items = Inl x" "\<exists>r\<in>set items. to_float e r = Inl x"
    using floats_of_fail by blast
  then have "x = ValueError \<or> x = TypeError"
    using h by blast
  then have c: "calc_avg e (PList items) = Inr None"
    using x True by (auto simp: calc_avg_def)
  show ?thesis
    using c True by (auto simp: save_def Let_def)
next
  case False
  then have ok: "\<forall>r\<in>set items. r \<noteq> PNone \<longrightarrow> \<not> isl (to_float e r)" by blast
  let ?vs = "map (\<lambda>r. projr (to_float e r)) (filter (\<lambda>r. r \<noteq> PNone) items)"
  have f: "floats_of e items = Inr ?vs" using floats_of_ok [OF ok] .
  have c: "calc_avg e (PList items) =
           Inr (if ?vs \<noteq> [] then Some (fdiv_len (fsum ?vs) (length ?vs)) else None)"
    using f by (cases "items = []") (auto simp: calc_avg_def)
  show ?thesis
    using c False by (auto simp: save_def Let_def)
qed

theorem avg_rating_recomputed_witness:
  "calc_avg plain_env (PList [PInt 4, PStr ''abc'']) = Inr None \<and>
   calc_avg plain_env (PList [PInt 4, PNone, PInt 2]) = Inr (Some (Fl 3))"
proof -
  have h1: "\<forall>r\<in>set [PInt 4, PStr ''abc''].
      \<forall>x. to_float plain_env r = Inl x \<longrightarrow> x = ValueError \<or> x = TypeError"
    by (auto simp: plain_env_def float_fl_lit_def dbl_limit_def split: option.splits if_splits)
  have h2: "\<forall>r\<in>set [PInt 4, PNone, PInt 2].
      \<forall>x. to_float plain_env r = Inl x \<longrightarrow> x = ValueError \<or> x = TypeError"
    by (auto simp: dbl_limit_def split: if_splits)
  have bad: "isl (to_float plain_env (PStr ''abc''))" by code_simp
  obtain a where a: "calc_avg plain_env (PList [PInt 4, PStr ''abc'']) = Inr a"
    "a = None \<longleftrightarrow>
       filter (\<lambda>r. r \<noteq> PNone) [PInt 4, PStr ''abc''] = [] \<or>
       (\<exists>r\<in>set [PInt 4, PStr ''abc'']. r \<noteq> PNone \<and> isl (to_float plain_env r))"
    using avg_rating_recomputed [OF h1] by blast
  have 1: "calc_avg plain_env (PList [PInt 4, PStr ''abc'']) = Inr None"
    using a bad by simp
  have ok: "to_float plain_env (PInt 4) = Inr (Fl 4) \<and> to_float plain_env (PInt 2) = Inr (Fl 2)"
    by code_simp
  have m: "fdiv_len (fsum [Fl 4, Fl 2]) (Suc (Suc 0)) = Fl 3" by code_simp
  obtain b where b: "calc_avg plain_env (PList [PInt 4, PNone, PInt 2]) = Inr b"
    "(\<forall>r\<in>set [PInt 4, PNone, PInt 2]. r \<noteq> PNone \<longrightarrow> \<not> isl (to_float plain_env r)) \<and>
       filter (\<lambda>r. r \<noteq> PNone) [PInt 4, PNone, PInt 2] \<noteq> [] \<longrightarrow>
     b = Some (fdiv_len
                (fsum (map (\<lambda>r. projr (to_float plain_env r))
                   (filter (\<lambda>r. r \<noteq> PNone) [PInt 4, PNone, PInt 2])))
                (length (filter (\<lambda>r. r \<noteq> PNone) [PInt 4, PNone, PInt 2])))"
    using avg_rating_recomputed [OF h2] by blast
  have 2: "calc_avg plain_env (PList [PInt 4, PNone, PInt 2]) = Inr (Some (Fl 3))"
    using b ok m by (simp del: to_float.simps)
  from 1 2 show ?thesis by blast
qed

text \<open>
  Claim C7 as stated fails: with the ratings \<open>[4, "abc"]\<close> one entry is a number, yet
  the stored average is null.
\<close>

theorem avg_rating_partial_counterexample:
  "to_float plain_env (PInt 4) = Inr (Fl 4) \<and>
   calc_avg plain_env (PList [PInt 4, PStr ''abc'']) = Inr None \<and>
   save plain_env \<lparr>external_id = PStr ''id1'', name = PStr ''Cafe'', latitude = 40, longitude = - 73,
                     category = PStr ''food'', ratings_data = PList [PInt 4, PStr ''abc''],
                     avg_rating = Some (Fl 4), description = PNone\<rparr> []
     = Inr [\<lparr>external_id = PStr ''id1'', name = PStr ''Cafe'', latitude = 40, longitude = - 73,
              category = PStr ''food'', ratings_data = PList [PInt 4, PStr ''abc''],
              avg_rating = None, description = PNone\<rparr>]"
  by code_simp

section \<open>Rows without ratings\<close>

lemma parse_ratings_empty: "parse_ratings fl [] = Inr []"
  by (simp add: parse_ratings_def)

lemma save_no_ratings:
  "db_reject e (stored i n la lo c [] None) = None \<Longrightarrow>
   save e (stored i n la lo c [] None) d = Inr (d @ [stored i n la lo c [] None])"
  by (simp add: save_def calc_avg_def stored_def)

text \<open>
  A line shorter than a header that has the \<open>poi_ratings\<close> column is another matter:
  its ratings cell is \<open>None\<close>, and \<open>.strip()\<close> on it raises \<open>AttributeError\<close>, which
  the handler of the loop does not catch.
\<close>

lemma csv_body_short_row:
  "row ''poi_ratings'' = Some None \<Longrightarrow> csv_body e row d = Inl AttributeError"
  by (simp add: csv_body_def ratings_cell_def)

lemma csv_body_no_ratings:
  assumes r: "row ''poi_ratings'' = None \<or> (\<exists>s. row ''poi_ratings'' = Some (Some s) \<and> strip_ws s = [])"
    and f: "row ''poi_id'' = Some (Some pid)" "row ''poi_name'' = Some (Some pname)"
      "row ''poi_latitude'' = Some (Some lat_s)" "row ''poi_longitude'' = Some (Some lon_s)"
      "row ''poi_category'' = Some (Some cat)"
    and v: "decimal_of e lat_s = Inr lat" "decimal_of e lon_s = Inr lon"
      "db_reject e (stored pid pname lat lon cat [] None) = None"
  shows "csv_body e row d = Inr (d @ [stored pid pname lat lon cat [] None])"
proof -
  have rc: "ratings_cell row = Inr []"
    using r by (auto simp: ratings_cell_def strip_ws_def strip_by_def)
  have "\<lparr>external_id = cell_val (Some pid), name = cell_val (Some pname),
             latitude = lat, longitude = lon, category = cell_val (Some cat),
             ratings_data = PList (map PFloat []),
             avg_rating = None, description = PNone\<rparr> = stored pid pname lat lon cat [] None"
    by (simp add: stored_def cell_val_def)
  then have s: "save e \<lparr>external_id = cell_val (Some pid), name = cell_val (Some pname),
             latitude = lat, longitude = lon, category = cell_val (Some cat),
             ratings_data = PList (map PFloat []),
             avg_rating = None, description = PNone\<rparr> d
           = Inr (d @ [stored pid pname lat lon cat [] None])"
    using save_no_ratings [OF v(3), of d] by (simp only:)
  show ?thesis
    unfolding csv_body_def
    by (simp add: rc parse_ratings_empty getitem_def f decimal_cell_def v s del: map_is_Nil_conv list.map)
qed

lemma xml_body_no_ratings:
  assumes r: "get_xml_text el [''pratings'', ''ratings'', ''poi_ratings''] = None \<or>
              get_xml_text el [''pratings'', ''ratings'', ''poi_ratings''] = Some []"
    and f: "get_xml_text el [''pid'', ''id'', ''poi_id''] = Some pid" "pid \<noteq> []"
      "get_xml_text el [''pname'', ''name'', ''poi_name''] = Some pname" "pname \<noteq> []"
      "get_xml_text el [''platitude'', ''latitude'', ''poi_latitude''] = Some lat_s" "lat_s \<noteq> []"
      "get_xml_text el [''plongitude'', ''longitude'', ''poi_longitude''] = Some lon_s" "lon_s \<noteq> []"
      "get_xml_text el [''pcategory'', ''category'', ''poi_category''] = Some cat" "cat \<noteq> []"
    and v: "decimal_of e lat_s = Inr lat" "decimal_of e lon_s = Inr lon"
      "db_reject e (stored pid pname lat lon cat [] None) = None"
  shows "xml_body e el d = Inr (Some (d @ [stored pid pname lat lon cat [] None]))"
proof -
  have p: "parse_ratings (float_of e)
             (case get_xml_text el [''pratings'', ''ratings'', ''poi_ratings''] of
                None \<Rightarrow> [] | Some s \<Rightarrow> s) = Inr []"
    using r by (auto simp: parse_ratings_empty)
  have "\<lparr>external_id = PStr pid, name = PStr pname,
             latitude = lat, longitude = lon, category = PStr cat,
             ratings_data = PList [],
             avg_rating = None, description = PNone\<rparr> = stored pid pname lat lon cat [] None"
    by (simp add: stored_def)
  then have s: "save e \<lparr>external_id = PStr pid, name = PStr pname,
             latitude = lat, longitude = lon, category = PStr cat,
             ratings_data = PList [],
             avg_rating = None, description = PNone\<rparr> d
           = Inr (d @ [stored pid pname lat lon cat [] None])"
    using save_no_ratings [OF v(3), of d] by (simp only:)
  show ?thesis
    unfolding xml_body_def Let_def
    by (simp add: f p v s present_def del: get_xml_text.simps)
qed

text \<open>
  Where the code does treat the ratings as optional: a CSV row whose header has no
  \<open>poi_ratings\<close> column, or whose ratings cell is an empty or blank string, and an XML
  element whose ratings tag is absent, without text or blank, are imported when the five
  required fields are there, latitude and longitude are read by \<open>Decimal\<close> and the
  database takes the record.
\<close>

lemma ratings_optional_when_no_cell_is_missing:
  "((row ''poi_ratings'' = None \<or> (\<exists>s. row ''poi_ratings'' = Some (Some s) \<and> strip_ws s = [])) \<and>
    row ''poi_id'' = Some (Some pid) \<and> row ''poi_name'' = Some (Some pname) \<and>
    row ''poi_latitude'' = Some (Some lat_s) \<and> row ''poi_longitude'' = Some (Some lon_s) \<and>
    row ''poi_category'' = Some (Some cat) \<and>
    decimal_of e lat_s = Inr lat \<and> decimal_of e lon_s = Inr lon \<and>
    db_reject e (stored pid pname lat lon cat [] None) = None \<longrightarrow>
      csv_loop e (row # rows) k d =
        csv_loop e rows (k + 1) (d @ [stored pid pname lat lon cat [] None])) \<and>
   ((get_xml_text el [''pratings'', ''ratings'', ''poi_ratings''] = None \<or>
     get_xml_text el [''pratings'', ''ratings'', ''poi_ratings''] = Some []) \<and>
    get_xml_text el [''pid'', ''id'', ''poi_id''] = Some pid \<and> pid \<noteq> [] \<and>
    get_xml_text el [''pname'', ''name'', ''poi_name''] = Some pname \<and> pname \<noteq> [] \<and>
    get_xml_text el [''platitude'', ''latitude'', ''poi_latitude''] = Some lat_s \<and> lat_s \<noteq> [] \<and>
    get_xml_text el [''plongitude'', ''longitude'', ''poi_longitude''] = Some lon_s \<and> lon_s \<noteq> [] \<and>
    get_xml_text el [''pcategory'', ''category'', ''poi_category''] = Some cat \<and> cat \<noteq> [] \<and>
    decimal_of e lat_s = Inr lat \<and> decimal_of e lon_s = Inr lon \<and>
    db_reject e (stored pid pname lat lon cat [] None) = None \<longrightarrow>
      xml_loop e (el # els) k d =
        xml_loop e els (k + 1) (d @ [stored pid pname lat lon cat [] None]))"
proof (intro conjI impI)
  assume a: "(row ''poi_ratings'' = None \<or> (\<exists>s. row ''poi_ratings'' = Some (Some s) \<and> strip_ws s = [])) \<and>
    row ''poi_id'' = Some (Some pid) \<and> row ''poi_name'' = Some (Some pname) \<and>
    row ''poi_latitude'' = Some (Some lat_s) \<and> row ''poi_longitude'' = Some (Some lon_s) \<and>
    row ''poi_category'' = Some (Some cat) \<and>
    decimal_of e lat_s = Inr lat \<and> decimal_of e lon_s = Inr lon \<and>
    db_reject e (stored pid pname lat lon cat [] None) = None"
  then have "csv_body e row d = Inr (d @ [stored pid pname lat lon cat [] None])"
    by (intro csv_body_no_ratings) blast+
  then show "csv_loop e (row # rows) k d =
        csv_loop e rows (k + 1) (d @ [stored pid pname lat lon cat [] None])"
    by simp
next
  assume a: "(get_xml_text el [''pratings'', ''ratings'', ''poi_ratings''] = None \<or>
     get_xml_text el [''pratings'', ''ratings'', ''poi_ratings''] = Some []) \<and>
    get_xml_text el [''pid'', ''id'', ''poi_id''] = Some pid \<and> pid \<noteq> [] \<and>
    get_xml_text el [''pname'', ''name'', ''poi_name''] = Some pname \<and> pname \<noteq> [] \<and>
    get_xml_text el [''platitude'', ''latitude'', ''poi_latitude''] = Some lat_s \<and> lat_s \<noteq> [] \<and>
    get_xml_text el [''plongitude'', ''longitude'', ''poi_longitude''] = Some lon_s \<and> lon_s \<noteq> [] \<and>
    get_xml_text el [''pcategory'', ''category'', ''poi_category''] = Some cat \<and> cat \<noteq> [] \<and>
    decimal_of e lat_s = Inr lat \<and> decimal_of e lon_s = Inr lon \<and>
    db_reject e (stored pid pname lat lon cat [] None) = None"
  then have "xml_body e el d = Inr (Some (d @ [stored pid pname lat lon cat [] None]))"
    by (intro xml_body_no_ratings) blast+
  then show "xml_loop e (el # els) k d =
        xml_loop e els (k + 1) (d @ [stored pid pname lat lon cat [] None])"
    by simp
qed


lemma ratings_optional_example:
  "csv_loop plain_env
     [dict_row [''poi_id'', ''poi_name'', ''poi_latitude'', ''poi_longitude'', ''poi_category'']
        [''id1'', ''Cafe'', ''40.0'', ''-73.0'', ''food''],
      dict_row poi_header [''id3'', ''Bar'', ''41.5'', ''-70'', ''food'', []]] 0 []
     = (Inr 2, [stored ''id1'' ''Cafe'' 40 (- 73) ''food'' [] None,
                stored ''id3'' ''Bar'' (83 / 2) (- 70) ''food'' [] None]) \<and>
   xml_loop plain_env
     [xml_poi [(''pid'', ''x1''), (''pname'', ''Zoo''), (''latitude'', '' 40.5 ''),
               (''plongitude'', ''3''), (''pcategory'', ''park'')]] 0 []
     = (Inr 1, [stored ''x1'' ''Zoo'' (81 / 2) 3 ''park'' [] None])"
proof -
  define ra where "ra = dict_row [''poi_id'', ''poi_name'', ''poi_latitude'', ''poi_longitude'', ''poi_category'']
        [''id1'', ''Cafe'', ''40.0'', ''-73.0'', ''food'']"
  define rb where "rb = dict_row poi_header [''id3'', ''Bar'', ''41.5'', ''-70'', ''food'', []]"
  define x where "x = xml_poi [(''pid'', ''x1''), (''pname'', ''Zoo''), (''latitude'', '' 40.5 ''),
               (''plongitude'', ''3''), (''pcategory'', ''park'')]"
  note csv_opt = ratings_optional_when_no_cell_is_missing [THEN conjunct1, rule_format]
  note xml_opt = ratings_optional_when_no_cell_is_missing [THEN conjunct2, rule_format]
  have ok: "db_reject plain_env p = None" for p
    by (simp add: plain_env_def)
  have ha: "(ra ''poi_ratings'' = None \<or> (\<exists>s. ra ''poi_ratings'' = Some (Some s) \<and> strip_ws s = [])) \<and>
    ra ''poi_id'' = Some (Some ''id1'') \<and> ra ''poi_name'' = Some (Some ''Cafe'') \<and>
    ra ''poi_latitude'' = Some (Some ''40.0'') \<and> ra ''poi_longitude'' = Some (Some ''-73.0'') \<and>
    ra ''poi_category'' = Some (Some ''food'') \<and>
    decimal_of plain_env ''40.0'' = Inr 40 \<and> decimal_of plain_env ''-73.0'' = Inr (- 73) \<and>
    db_reject plain_env (stored ''id1'' ''Cafe'' 40 (- 73) ''food'' [] None) = None"
    unfolding ra_def by (intro conjI disjI1 ok; code_simp)
  have "rb ''poi_ratings'' = Some (Some []) \<and> strip_ws [] = []"
    unfolding rb_def by code_simp
  then have rbr: "rb ''poi_ratings'' = None \<or> (\<exists>s. rb ''poi_ratings'' = Some (Some s) \<and> strip_ws s = [])"
    by blast
  have hb: "(rb ''poi_ratings'' = None \<or> (\<exists>s. rb ''poi_ratings'' = Some (Some s) \<and> strip_ws s = [])) \<and>
    rb ''poi_id'' = Some (Some ''id3'') \<and> rb ''poi_name'' = Some (Some ''Bar'') \<and>
    rb ''poi_latitude'' = Some (Some ''41.5'') \<and> rb ''poi_longitude'' = Some (Some ''-70'') \<and>
    rb ''poi_category'' = Some (Some ''food'') \<and>
    decimal_of plain_env ''41.5'' = Inr (83 / 2) \<and> decimal_of plain_env ''-70'' = Inr (- 70) \<and>
    db_reject plain_env (stored ''id3'' ''Bar'' (83 / 2) (- 70) ''food'' [] None) = None"
    unfolding rb_def by (intro conjI rbr [unfolded rb_def] ok; code_simp)
  have hx: "(get_xml_text x [''pratings'', ''ratings'', ''poi_ratings''] = None \<or>
     get_xml_text x [''pratings'', ''ratings'', ''poi_ratings''] = Some []) \<and>
    get_xml_text x [''pid'', ''id'', ''poi_id''] = Some ''x1'' \<and> ''x1'' \<noteq> [] \<and>
    get_xml_text x [''pname'', ''name'', ''poi_name''] = Some ''Zoo'' \<and> ''Zoo'' \<noteq> [] \<and>
    get_xml_text x [''platitude'', ''latitude'', ''poi_latitude''] = Some ''40.5'' \<and> ''40.5'' \<noteq> [] \<and>
    get_xml_text x [''plongitude'', ''longitude'', ''poi_longitude''] = Some ''3'' \<and> ''3'' \<noteq> [] \<and>
    get_xml_text x [''pcategory'', ''category'', ''poi_category''] = Some ''park'' \<and> ''park'' \<noteq> [] \<and>
    decimal_of plain_env ''40.5'' = Inr (81 / 2) \<and> decimal_of plain_env ''3'' = Inr 3 \<and>
    db_reject plain_env (stored ''x1'' ''Zoo'' (81 / 2) 3 ''park'' [] None) = None"
    unfolding x_def by (intro conjI disjI1 ok; code_simp)
  have "csv_loop plain_env (ra # [rb]) 0 [] =
        csv_loop plain_env [rb] (0 + 1) ([] @ [stored ''id1'' ''Cafe'' 40 (- 73) ''food'' [] None])"
    using ha by (rule csv_opt)
  also have "\<dots> = csv_loop plain_env [] (0 + 1 + 1)
        (([] @ [stored ''id1'' ''Cafe'' 40 (- 73) ''food'' [] None]) @
         [stored ''id3'' ''Bar'' (83 / 2) (- 70) ''food'' [] None])"
    using hb by (rule csv_opt)
  finally have a: "csv_loop plain_env [ra, rb] 0 [] =
     (Inr 2, [stored ''id1'' ''Cafe'' 40 (- 73) ''food'' [] None,
              stored ''id3'' ''Bar'' (83 / 2) (- 70) ''food'' [] None])"
    by simp
  have "xml_loop plain_env (x # []) 0 [] =
        xml_loop plain_env [] (0 + 1) ([] @ [stored ''x1'' ''Zoo'' (81 / 2) 3 ''park'' [] None])"
    using hx by (rule xml_opt)
  then have b: "xml_loop plain_env [x] 0 [] = (Inr 1, [stored ''x1'' ''Zoo'' (81 / 2) 3 ''park'' [] None])"
    by simp
  show ?thesis
    using a b unfolding ra_def rb_def x_def by (intro conjI)
qed

text \<open>
  Claim C9 (a defect of the code). A line of five cells under the header of six columns
  has its five required fields present and valid and no ratings: its ratings cell is
  \<open>None\<close>. The default of \<open>row.get('poi_ratings', '')\<close> is not used for it,
  \<open>.strip()\<close> raises \<open>AttributeError\<close>, and the import of the file ends there, rolled
  back, although the same line with an empty ratings cell is imported.
\<close>

theorem short_line_aborts_file:
  "dict_row poi_header [''id2'', ''Bar'', ''41.5'', ''-70'', ''food''] ''poi_ratings'' = Some None \<and>
   import_csv plain_env
     ([dict_row poi_header [''id1'', ''Cafe'', ''40.0'', ''-73.0'', ''food'', ''[4,5]''],
       dict_row poi_header [''id2'', ''Bar'', ''41.5'', ''-70'', ''food'']], None) []
     = (Inl AttributeError, []) \<and>
   import_csv plain_env
     ([dict_row poi_header [''id1'', ''Cafe'', ''40.0'', ''-73.0'', ''food'', ''[4,5]''],
       dict_row poi_header [''id2'', ''Bar'', ''41.5'', ''-70'', ''food'', []]], None) []
     = (Inr 2, [stored ''id1'' ''Cafe'' 40 (- 73) ''food'' [4, 5] (Some (9 / 2)),
                stored ''id2'' ''Bar'' (83 / 2) (- 70) ''food'' [] None])"
  by code_simp

end
